theory Spec2Isabelle
  imports Complex_Main "HOL-Library.Word"
begin

chapter \<open>The price-comparison server: currency, text reduction, slug names, endpoints\<close>

text \<open>
  A shallow embedding of the server script of the repository (the file with
  \<^verbatim>\<open>getINRRate\<close>, \<^verbatim>\<open>toINR\<close>, \<^verbatim>\<open>detectCurrency\<close>,
  \<^verbatim>\<open>extractProductNameFromUrl\<close>, \<^verbatim>\<open>cleanHTML\<close> and the two
  \<^verbatim>\<open>POST\<close> handlers). Every definition keeps the name of the function it
  embeds; the JavaScript built-ins the script calls (string methods, regular
  expressions, \<^verbatim>\<open>URL\<close>, \<^verbatim>\<open>parseFloat\<close>, \<^verbatim>\<open>Math.round\<close>) are
  modelled next to their first use, each with the text of the call it stands for.
\<close>

section \<open>JavaScript strings\<close>

text \<open>
  A JavaScript string is a sequence of UTF-16 code units, and \<^verbatim>\<open>.length\<close>,
  \<^verbatim>\<open>.slice\<close> and the regular expressions of the script (none has the
  \<^verbatim>\<open>u\<close> flag) count and match code units. \<open>js\<close> turns an ASCII literal into
  such a string.
\<close>

type_synonym jschar = "16 word"
type_synonym jsstring = "jschar list"

definition js :: "string \<Rightarrow> jsstring" where
  "js s = map of_char s"

definition isDigit :: "jschar \<Rightarrow> bool" where
  \<comment> \<open>\<^verbatim>\<open>\d\<close>, \<^verbatim>\<open>[0-9]\<close>\<close>
  "isDigit c = (0x30 \<le> c \<and> c \<le> 0x39)"

definition isUpper :: "jschar \<Rightarrow> bool" where
  "isUpper c = (0x41 \<le> c \<and> c \<le> 0x5A)"

definition isLower :: "jschar \<Rightarrow> bool" where
  "isLower c = (0x61 \<le> c \<and> c \<le> 0x7A)"

definition isAlpha :: "jschar \<Rightarrow> bool" where
  \<comment> \<open>\<^verbatim>\<open>[a-zA-Z]\<close>\<close>
  "isAlpha c = (isUpper c \<or> isLower c)"

definition isWordChar :: "jschar \<Rightarrow> bool" where
  \<comment> \<open>\<^verbatim>\<open>\w\<close>, that is \<^verbatim>\<open>[A-Za-z0-9_]\<close>\<close>
  "isWordChar c = (isAlpha c \<or> isDigit c \<or> c = 0x5F)"

definition isHexDigit :: "jschar \<Rightarrow> bool" where
  \<comment> \<open>\<^verbatim>\<open>[a-f0-9]\<close> under the \<^verbatim>\<open>i\<close> flag\<close>
  "isHexDigit c = (isDigit c \<or> (0x61 \<le> c \<and> c \<le> 0x66) \<or> (0x41 \<le> c \<and> c \<le> 0x46))"

definition isSpace :: "jschar \<Rightarrow> bool" where
  \<comment> \<open>\<^verbatim>\<open>\s\<close>, and what \<^verbatim>\<open>trim\<close> removes: white space and line terminators\<close>
  "isSpace c = (c \<in> set [0x09, 0x0A, 0x0B, 0x0C, 0x0D, 0x20, 0xA0, 0x1680, 0x2028, 0x2029,
                          0x202F, 0x205F, 0x3000, 0xFEFF] \<or> (0x2000 \<le> c \<and> c \<le> 0x200A))"

text \<open>
  \<^verbatim>\<open>toUpperCase\<close> and \<^verbatim>\<open>toLowerCase\<close> on the ASCII letters. The platform
  also maps letters outside ASCII (and a few of them to more than one code unit);
  those are left as they are here, so the two functions are exact on strings whose
  cased letters are ASCII.
\<close>

definition toUpperChar :: "jschar \<Rightarrow> jschar" where
  "toUpperChar c = (if isLower c then c - 0x20 else c)"

definition toLowerChar :: "jschar \<Rightarrow> jschar" where
  "toLowerChar c = (if isUpper c then c + 0x20 else c)"

definition toUpperCase :: "jsstring \<Rightarrow> jsstring" where
  "toUpperCase s = map toUpperChar s"

definition toLowerCase :: "jsstring \<Rightarrow> jsstring" where
  "toLowerCase s = map toLowerChar s"

definition startsWith :: "jsstring \<Rightarrow> jsstring \<Rightarrow> bool" where
  \<comment> \<open>\<open>startsWith p s\<close>: the string \<open>s\<close> begins with \<open>p\<close>\<close>
  "startsWith p s = (take (length p) s = p)"

fun includesStr :: "jsstring \<Rightarrow> jsstring \<Rightarrow> bool" where
  \<comment> \<open>\<^verbatim>\<open>s.includes(p)\<close>\<close>
  "includesStr [] p = (p = [])"
| "includesStr (c # cs) p = (startsWith p (c # cs) \<or> includesStr cs p)"

fun split :: "jschar \<Rightarrow> jsstring \<Rightarrow> jsstring list" where
  \<comment> \<open>\<^verbatim>\<open>s.split(d)\<close> for a separator of one code unit\<close>
  "split d [] = [[]]"
| "split d (c # cs) =
     (if c = d then [] # split d cs
      else (case split d cs of [] \<Rightarrow> [[c]] | w # ws \<Rightarrow> (c # w) # ws))"

definition trim :: "jsstring \<Rightarrow> jsstring" where
  "trim s = rev (dropWhile isSpace (rev (dropWhile isSpace s)))"

fun replaceFirst :: "jsstring \<Rightarrow> jsstring \<Rightarrow> jsstring \<Rightarrow> jsstring" where
  \<comment> \<open>\<^verbatim>\<open>s.replace(p, r)\<close> with a string pattern: the first occurrence only\<close>
  "replaceFirst p r [] = (if p = [] then r else [])"
| "replaceFirst p r (c # cs) =
     (if startsWith p (c # cs) then r @ drop (length p) (c # cs) else c # replaceFirst p r cs)"

text \<open>
  Several of the script's global replacements act on the maximal runs of one
  character class: \<^verbatim>\<open>/\s+/g\<close> and \<^verbatim>\<open>/\s{2,}/g\<close> on runs of white space, and
  \<^verbatim>\<open>/\b[a-f0-9]{8,}\b/gi\<close> and \<^verbatim>\<open>/\b\d{4,}\b/g\<close> on words (a match starts
  and ends at a word boundary and holds word characters only, so it is a whole
  maximal run of \<^verbatim>\<open>\w\<close>). \<open>mapRuns P f run s\<close> scans \<open>s\<close>, collects each
  maximal run of \<open>P\<close> in \<open>run\<close> and emits \<open>f\<close> of it.
\<close>

fun mapRuns :: "(jschar \<Rightarrow> bool) \<Rightarrow> (jsstring \<Rightarrow> jsstring) \<Rightarrow> jsstring \<Rightarrow> jsstring \<Rightarrow> jsstring" where
  "mapRuns P f run [] = f run"
| "mapRuns P f run (c # cs) =
     (if P c then mapRuns P f (run @ [c]) cs else f run @ c # mapRuns P f [] cs)"

definition removeHexIds :: "jsstring \<Rightarrow> jsstring" where
  \<comment> \<open>\<^verbatim>\<open>.replace(/\b[a-f0-9]{8,}\b/gi, '')\<close>\<close>
  "removeHexIds s =
     mapRuns isWordChar (\<lambda>w. if 8 \<le> length w \<and> list_all isHexDigit w then [] else w) [] s"

definition removeLongNumbers :: "jsstring \<Rightarrow> jsstring" where
  \<comment> \<open>\<^verbatim>\<open>.replace(/\b\d{4,}\b/g, '')\<close>\<close>
  "removeLongNumbers s =
     mapRuns isWordChar (\<lambda>w. if 4 \<le> length w \<and> list_all isDigit w then [] else w) [] s"

definition collapseSpaces :: "jsstring \<Rightarrow> jsstring" where
  \<comment> \<open>\<^verbatim>\<open>.replace(/\s+/g, ' ')\<close>\<close>
  "collapseSpaces s = mapRuns isSpace (\<lambda>r. if r = [] then [] else [0x20]) [] s"

definition collapseSpaces2 :: "jsstring \<Rightarrow> jsstring" where
  \<comment> \<open>\<^verbatim>\<open>.replace(/\s{2,}/g, ' ')\<close>: a single white-space character stays as it is\<close>
  "collapseSpaces2 s = mapRuns isSpace (\<lambda>r. if 2 \<le> length r then [0x20] else r) [] s"

fun titleCase :: "bool \<Rightarrow> jsstring \<Rightarrow> jsstring" where
  \<comment> \<open>\<^verbatim>\<open>.replace(/\b\w/g, c => c.toUpperCase())\<close>; the flag says whether the
      code unit before is a word character\<close>
  "titleCase prev [] = []"
| "titleCase prev (c # cs) =
     (if isWordChar c \<and> \<not> prev then toUpperChar c else c) # titleCase (isWordChar c) cs"

section \<open>URLs\<close>

text \<open>
  \<^verbatim>\<open>new URL(url)\<close> is the platform's parser. The model reads an absolute URL
  \<^verbatim>\<open>scheme://authority/path?query#fragment\<close>: the host name is the authority
  without user information and port, in lower case; the path runs to the first
  \<^verbatim>\<open>?\<close> or \<^verbatim>\<open>#\<close> and is \<^verbatim>\<open>/\<close> when empty. \<open>None\<close> is the
  \<^verbatim>\<open>TypeError\<close> of an invalid URL. The normalisations of the platform (dot
  segments, backslashes, percent-encoding) are not modelled: the path is exact for
  URLs written with unreserved characters and \<^verbatim>\<open>/\<close>.
\<close>

record parsed_url =
  hostname :: jsstring
  pathname :: jsstring

definition isSchemeChar :: "jschar \<Rightarrow> bool" where
  "isSchemeChar c = (isAlpha c \<or> isDigit c \<or> c = 0x2B \<or> c = 0x2D \<or> c = 0x2E)"

definition hostOf :: "jsstring \<Rightarrow> jsstring" where
  "hostOf authority =
     takeWhile (\<lambda>c. c \<noteq> 0x3A) (rev (takeWhile (\<lambda>c. c \<noteq> 0x40) (rev authority)))"

definition URL :: "jsstring \<Rightarrow> parsed_url option" where
  "URL s =
     (let scheme = takeWhile (\<lambda>c. c \<noteq> 0x3A) s;
          rest = dropWhile (\<lambda>c. c \<noteq> 0x3A) s
      in if scheme = [] \<or> \<not> isAlpha (hd scheme) \<or> \<not> list_all isSchemeChar scheme
            \<or> \<not> startsWith (js ''://'') rest
         then None
         else
           (let r = drop 3 rest;
                authority = takeWhile (\<lambda>c. c \<noteq> 0x2F \<and> c \<noteq> 0x3F \<and> c \<noteq> 0x23) r;
                after = dropWhile (\<lambda>c. c \<noteq> 0x2F \<and> c \<noteq> 0x3F \<and> c \<noteq> 0x23) r;
                path = takeWhile (\<lambda>c. c \<noteq> 0x3F \<and> c \<noteq> 0x23) after
            in if hostOf authority = [] then None
               else Some \<lparr>hostname = toLowerCase (hostOf authority),
                          pathname = (if path = [] then js ''/'' else path)\<rparr>))"

section \<open>The website name and the product name of a URL\<close>

definition getWebsiteName :: "jsstring \<Rightarrow> jsstring" where
  "getWebsiteName u =
     (case URL u of
        None \<Rightarrow> js ''Website''
      | Some parsed \<Rightarrow>
          (let host = replaceFirst (js ''www.'') [] (hostname parsed);
               name = (case split 0x2E host of [] \<Rightarrow> [] | p # _ \<Rightarrow> p)
           in toUpperCase (take 1 name) @ drop 1 name))"

fun hasLetters3 :: "jsstring \<Rightarrow> bool" where
  \<comment> \<open>\<^verbatim>\<open>/[a-zA-Z]{3,}/.test(seg)\<close>\<close>
  "hasLetters3 (a # b # c # cs) = ((isAlpha a \<and> isAlpha b \<and> isAlpha c) \<or> hasLetters3 (b # c # cs))"
| "hasLetters3 _ = False"

definition isMarker :: "jsstring \<Rightarrow> bool" where
  \<comment> \<open>\<^verbatim>\<open>/^\/?(dp|p|product|item|pd)$/.test(seg)\<close>\<close>
  "isMarker seg =
     (let ms = [js ''dp'', js ''p'', js ''product'', js ''item'', js ''pd'']
      in seg \<in> set ms \<or> seg \<in> set (map (\<lambda>m. 0x2F # m) ms))"

definition pickSlug :: "jsstring \<Rightarrow> jsstring \<Rightarrow> jsstring" where
  \<comment> \<open>the body of the loop over the segments\<close>
  "pickSlug bestSlug seg =
     (if length seg > length bestSlug \<and> hasLetters3 seg \<and> \<not> isMarker seg then seg else bestSlug)"

definition extractProductNameFromUrl :: "jsstring \<Rightarrow> jsstring option" where
  "extractProductNameFromUrl u =
     (case URL u of
        None \<Rightarrow> None
      | Some parsed \<Rightarrow>
          (let segments = filter (\<lambda>seg. seg \<noteq> []) (split 0x2F (pathname parsed));
               bestSlug = foldl pickSlug [] segments
           in if bestSlug = [] then None
              else
                (let name = titleCase False (trim (collapseSpaces (removeLongNumbers (removeHexIds
                              (map (\<lambda>c. if c = 0x2D \<or> c = 0x5F then 0x20 else c) bestSlug)))))
                 in if length name > 3 then Some name else None)))"

section \<open>JavaScript numbers\<close>

text \<open>
  A number is \<^verbatim>\<open>NaN\<close>, an infinity or a finite value. Finite values are exact
  rationals here: the rounding of binary floating point and the sign of zero are
  not modelled. \<^verbatim>\<open>Math.round\<close> rounds to the nearest integer, a half towards
  \<^verbatim>\<open>+Infinity\<close>.
\<close>

datatype jsnum = NaN | PosInf | NegInf | Fin rat

definition truthy :: "jsnum \<Rightarrow> bool" where
  "truthy n = (n \<noteq> NaN \<and> n \<noteq> Fin 0)"

definition isNaN :: "jsnum \<Rightarrow> bool" where
  "isNaN n = (n = NaN)"

fun negate :: "jsnum \<Rightarrow> jsnum" where
  "negate NaN = NaN"
| "negate PosInf = NegInf"
| "negate NegInf = PosInf"
| "negate (Fin a) = Fin (- a)"

fun times_inf :: "jsnum \<Rightarrow> jsnum" where
  \<comment> \<open>\<^verbatim>\<open>Infinity * y\<close>\<close>
  "times_inf NaN = NaN"
| "times_inf PosInf = PosInf"
| "times_inf NegInf = NegInf"
| "times_inf (Fin b) = (if b = 0 then NaN else if 0 < b then PosInf else NegInf)"

fun mul :: "jsnum \<Rightarrow> jsnum \<Rightarrow> jsnum" where
  \<comment> \<open>\<^verbatim>\<open>x * y\<close>\<close>
  "mul NaN y = NaN"
| "mul PosInf y = times_inf y"
| "mul NegInf y = negate (times_inf y)"
| "mul (Fin a) (Fin b) = Fin (a * b)"
| "mul (Fin a) NaN = NaN"
| "mul (Fin a) PosInf = times_inf (Fin a)"
| "mul (Fin a) NegInf = negate (times_inf (Fin a))"

fun reciprocal :: "jsnum \<Rightarrow> jsnum" where
  \<comment> \<open>\<^verbatim>\<open>1 / x\<close>\<close>
  "reciprocal NaN = NaN"
| "reciprocal PosInf = Fin 0"
| "reciprocal NegInf = Fin 0"
| "reciprocal (Fin a) = (if a = 0 then PosInf else Fin (1 / a))"

fun round_js :: "jsnum \<Rightarrow> jsnum" where
  \<comment> \<open>\<^verbatim>\<open>Math.round(x)\<close>\<close>
  "round_js (Fin a) = Fin (of_int \<lfloor>a + 1 / 2\<rfloor>)"
| "round_js x = x"


section \<open>The exchange-rate cache and the conversion to INR\<close>

text \<open>
  The two module variables \<^verbatim>\<open>exchangeRates\<close> and \<^verbatim>\<open>ratesFetchedAt\<close> are the
  state; \<^verbatim>\<open>getINRRate\<close> takes it and returns it. \<^verbatim>\<open>Date.now()\<close> is the
  argument \<open>now\<close> (milliseconds), and \<open>reply\<close> is what the request for the
  rates does if it is made: \<open>Some rates\<close> when it answers with a table of rates,
  \<open>None\<close> when it throws (no answer within five seconds, an error status).
\<close>

type_synonym rates = "jsstring \<rightharpoonup> jsnum"

record rate_cache =
  exchangeRates :: rates
  ratesFetchedAt :: int

definition initial_cache :: rate_cache where
  \<comment> \<open>\<^verbatim>\<open>let exchangeRates = {}; let ratesFetchedAt = 0;\<close>\<close>
  "initial_cache = \<lparr>exchangeRates = Map.empty, ratesFetchedAt = 0\<rparr>"

definition fallbackRates :: rates where
  \<comment> \<open>\<^verbatim>\<open>{ USD: 0.012, EUR: 0.011, GBP: 0.0095, JPY: 1.8, INR: 1 }\<close>\<close>
  "fallbackRates =
     map_of [(js ''USD'', Fin 0.012), (js ''EUR'', Fin 0.011), (js ''GBP'', Fin 0.0095),
             (js ''JPY'', Fin 1.8), (js ''INR'', Fin 1)]"

definition objectPrototypeKeys :: "jsstring list" where
  \<comment> \<open>the properties every object literal inherits; each is an object or a function\<close>
  "objectPrototypeKeys =
     [js ''constructor'', js ''hasOwnProperty'', js ''isPrototypeOf'', js ''propertyIsEnumerable'',
      js ''toLocaleString'', js ''toString'', js ''valueOf'', js ''__proto__'',
      js ''__defineGetter__'', js ''__defineSetter__'', js ''__lookupGetter__'',
      js ''__lookupSetter__'']"

definition hasRate :: "rates \<Rightarrow> jsstring \<Rightarrow> bool" where
  \<comment> \<open>the truth value of \<^verbatim>\<open>exchangeRates[key]\<close>\<close>
  "hasRate rs key =
     (case rs key of Some r \<Rightarrow> truthy r | None \<Rightarrow> key \<in> set objectPrototypeKeys)"

definition needsRefresh :: "rate_cache \<Rightarrow> int \<Rightarrow> jsstring \<Rightarrow> bool" where
  \<comment> \<open>\<^verbatim>\<open>now - ratesFetchedAt > 30 * 60 * 1000 || !exchangeRates[fromCurrency]\<close>\<close>
  "needsRefresh st now fromCurrency =
     (now - ratesFetchedAt st > 30 * 60 * 1000 \<or> \<not> hasRate (exchangeRates st) fromCurrency)"

definition refresh :: "rate_cache \<Rightarrow> int \<Rightarrow> rates option \<Rightarrow> rate_cache" where
  \<comment> \<open>the \<^verbatim>\<open>try\<close> and its \<^verbatim>\<open>catch\<close>\<close>
  "refresh st now reply =
     (case reply of
        Some rs \<Rightarrow> \<lparr>exchangeRates = rs, ratesFetchedAt = now\<rparr>
      | None \<Rightarrow> st\<lparr>exchangeRates := fallbackRates\<rparr>)"

definition getINRRate :: "rate_cache \<Rightarrow> int \<Rightarrow> rates option \<Rightarrow> jsstring \<Rightarrow> jsnum \<times> rate_cache" where
  "getINRRate st now reply fromCurrency =
     (let st' = (if needsRefresh st now fromCurrency then refresh st now reply else st);
          upper = toUpperCase fromCurrency
      in if upper = js ''INR'' then (Fin 1, st')
         else
           (case exchangeRates st' upper of
              Some rate \<Rightarrow> (if truthy rate then reciprocal rate else Fin 83, st')
            | None \<Rightarrow> (if upper \<in> set objectPrototypeKeys then NaN else Fin 83, st')))"

definition toINR :: "rate_cache \<Rightarrow> int \<Rightarrow> rates option \<Rightarrow> jsnum option \<Rightarrow> jsstring \<Rightarrow> jsnum option \<times> rate_cache" where
  \<comment> \<open>\<open>None\<close> is \<^verbatim>\<open>null\<close>, as an amount and as a result\<close>
  "toINR st now reply amount currency =
     (case amount of
        None \<Rightarrow> (None, st)
      | Some a \<Rightarrow>
          if \<not> truthy a \<or> isNaN a then (None, st)
          else (let (rate, st') = getINRRate st now reply currency
                in (Some (round_js (mul a rate)), st')))"

definition detectCurrency :: "jsstring option \<Rightarrow> jsstring" where
  \<comment> \<open>\<open>None\<close> is a price string that is missing (\<^verbatim>\<open>undefined\<close>, \<^verbatim>\<open>null\<close>)\<close>
  "detectCurrency priceStr =
     (case priceStr of
        None \<Rightarrow> js ''USD''
      | Some s \<Rightarrow>
          if s = [] then js ''USD''
          else if includesStr s [0x20B9] \<or> includesStr (toLowerCase s) (js ''inr'') then js ''INR''
          else if includesStr s [0x20AC] then js ''EUR''
          else if includesStr s [0xA3] then js ''GBP''
          else if includesStr s [0xA5] then js ''JPY''
          else js ''USD'')"

text \<open>
  \<^verbatim>\<open>parseFloat\<close> on a string of digits and dots (all that
  \<^verbatim>\<open>parseNumericPrice\<close> leaves): the longest prefix that is a decimal literal,
  \<^verbatim>\<open>NaN\<close> when there is none.
\<close>

definition digitValue :: "jschar \<Rightarrow> nat" where
  "digitValue c = unat c - 48"

definition decimalValue :: "jsstring \<Rightarrow> nat" where
  "decimalValue ds = foldl (\<lambda>n c. 10 * n + digitValue c) 0 ds"

definition parseFloat :: "jsstring \<Rightarrow> jsnum" where
  "parseFloat s =
     (let whole = takeWhile isDigit s;
          rest = dropWhile isDigit s;
          frac = (case rest of [] \<Rightarrow> [] | c # cs \<Rightarrow> if c = 0x2E then takeWhile isDigit cs else [])
      in if whole = [] \<and> frac = [] then NaN
         else Fin (of_nat (decimalValue whole) + of_nat (decimalValue frac) / 10 ^ length frac))"

definition parseNumericPrice :: "jsstring option \<Rightarrow> jsnum option" where
  "parseNumericPrice str =
     (case str of
        None \<Rightarrow> None
      | Some s \<Rightarrow>
          if s = [] then None
          else
            (let cleaned = filter (\<lambda>c. c \<noteq> 0x2C) (filter (\<lambda>c. isDigit c \<or> c = 0x2E \<or> c = 0x2C) s);
                 num = parseFloat cleaned
             in if isNaN num then None else Some num))"

section \<open>The text reducer\<close>

text \<open>
  \<^verbatim>\<open>cleanHTML\<close> is a chain of global replacements. The first eight remove
  \<^verbatim>\<open>/<script[\s\S]*?<\/script>/gi\<close> and its like: at each position, from the left,
  where the opening text matches and the closing text occurs somewhere after it,
  everything up to the end of the nearest closing text is removed (the quantifier is
  lazy) and the scan goes on behind it; where no closing text follows, the code unit
  stays. The matcher is \<open>startsWithCI\<close> under the \<^verbatim>\<open>i\<close> flag and
  \<open>startsWith\<close> without it.
\<close>

definition startsWithCI :: "jsstring \<Rightarrow> jsstring \<Rightarrow> bool" where
  "startsWithCI p s = (toLowerCase (take (length p) s) = toLowerCase p)"

fun findFrom :: "(jsstring \<Rightarrow> jsstring \<Rightarrow> bool) \<Rightarrow> jsstring \<Rightarrow> jsstring \<Rightarrow> nat option" where
  \<comment> \<open>the first position of \<open>s\<close> at which \<open>p\<close> matches\<close>
  "findFrom m p [] = (if m p [] then Some 0 else None)"
| "findFrom m p (c # cs) = (if m p (c # cs) then Some 0 else map_option Suc (findFrom m p cs))"

fun removeBlocks :: "(jsstring \<Rightarrow> jsstring \<Rightarrow> bool) \<Rightarrow> jsstring \<Rightarrow> jsstring \<Rightarrow> jsstring \<Rightarrow> jsstring" where
  \<comment> \<open>\<^verbatim>\<open>.replace(/OPEN[\s\S]*?CLOSE/g, '')\<close>; the match at \<open>c # cs\<close> has
      \<open>length opn + i + length cls\<close> code units, the first of them \<open>c\<close>\<close>
  "removeBlocks m opn cls [] = []"
| "removeBlocks m opn cls (c # cs) =
     (if m opn (c # cs) then
        (case findFrom m cls (drop (length opn) (c # cs)) of
           Some i \<Rightarrow> removeBlocks m opn cls (drop (length opn + i + length cls - 1) cs)
         | None \<Rightarrow> c # removeBlocks m opn cls cs)
      else c # removeBlocks m opn cls cs)"

fun stripTags :: "bool \<Rightarrow> jsstring \<Rightarrow> jsstring" where
  \<comment> \<open>\<^verbatim>\<open>.replace(/<[^>]+>/g, ' ')\<close>: a match is \<^verbatim>\<open><\<close>, one or more code units
      other than \<^verbatim>\<open>>\<close>, and the first \<^verbatim>\<open>>\<close> after them. The flag is set
      while the scan is inside a match.\<close>
  "stripTags inTag [] = []"
| "stripTags True (c # cs) = (if c = 0x3E then stripTags False cs else stripTags True cs)"
| "stripTags False (c # cs) =
     (if c = 0x3C \<and> (case cs of [] \<Rightarrow> False | d # ds \<Rightarrow> d \<noteq> 0x3E \<and> 0x3E \<in> set ds)
      then 0x20 # stripTags True cs
      else c # stripTags False cs)"

fun replaceAll :: "jsstring \<Rightarrow> jsstring \<Rightarrow> jsstring \<Rightarrow> jsstring" where
  \<comment> \<open>\<^verbatim>\<open>.replace(/p/g, r)\<close> for a literal, non-empty \<open>p\<close>: left to right, without
      overlap, and without looking at the text it has put in\<close>
  "replaceAll p r [] = []"
| "replaceAll p r (c # cs) =
     (if p \<noteq> [] \<and> startsWith p (c # cs) then r @ replaceAll p r (drop (length p - 1) cs)
      else c # replaceAll p r cs)"

definition removeElements :: "jsstring \<Rightarrow> jsstring" where
  \<comment> \<open>the eight element removals and the removal of comments, in the order of the script\<close>
  "removeElements html =
     removeBlocks startsWith (js ''<!--'') (js ''-->'')
       (foldl (\<lambda>h tag. removeBlocks startsWithCI (js ''<'' @ tag) (js ''</'' @ tag @ js ''>'') h) html
          [js ''script'', js ''style'', js ''nav'', js ''footer'', js ''header'', js ''aside'',
           js ''iframe'', js ''svg''])"

definition decodeEntities :: "jsstring \<Rightarrow> jsstring" where
  "decodeEntities s =
     replaceAll (js ''&gt;'') (js ''>'')
       (replaceAll (js ''&lt;'') (js ''<'')
          (replaceAll (js ''&amp;'') (js ''&'')
             (replaceAll (js ''&nbsp;'') (js '' '') s)))"

definition cleaned :: "jsstring \<Rightarrow> jsstring" where
  \<comment> \<open>the variable \<^verbatim>\<open>cleaned\<close> of \<^verbatim>\<open>cleanHTML\<close>: the text before the cut\<close>
  "cleaned html = trim (collapseSpaces2 (decodeEntities (stripTags False (removeElements html))))"

definition cleanHTML :: "jsstring \<Rightarrow> jsstring" where
  "cleanHTML html = take 8000 (cleaned html)"

subsection \<open>Markup of text and tags\<close>







section \<open>Values of JSON\<close>

text \<open>
  What the extraction service returns is the result of \<^verbatim>\<open>JSON.parse\<close>: any
  value of JSON. \<open>JUndefined\<close> is the value of a property that an object does
  not have. The script reads the properties \<^verbatim>\<open>name\<close>, \<^verbatim>\<open>priceText\<close>,
  \<^verbatim>\<open>currency\<close>, \<^verbatim>\<open>description\<close> and \<^verbatim>\<open>image\<close>; no prototype has
  one of them, so a value other than an object has none.
\<close>

datatype json =
    JUndefined
  | JNull
  | JBool bool
  | JNum jsnum
  | JStr jsstring
  | JArr "json list"
  | JObj "(jsstring \<times> json) list"

fun jtruthy :: "json \<Rightarrow> bool" where
  "jtruthy JUndefined = False"
| "jtruthy JNull = False"
| "jtruthy (JBool b) = b"
| "jtruthy (JNum n) = truthy n"
| "jtruthy (JStr s) = (s \<noteq> [])"
| "jtruthy (JArr xs) = True"
| "jtruthy (JObj kvs) = True"

fun getProp :: "json \<Rightarrow> jsstring \<Rightarrow> json" where
  "getProp (JObj kvs) key = (case map_of kvs key of Some v \<Rightarrow> v | None \<Rightarrow> JUndefined)"
| "getProp v key = JUndefined"

datatype exn = TypeError | URIError

text \<open>
  A string method called on a value: a falsy value never reaches the call (the
  script tests \<^verbatim>\<open>!x\<close> first), a string answers, and any other value has no
  such method, which is a \<^verbatim>\<open>TypeError\<close>.
\<close>

fun stringArg :: "json \<Rightarrow> exn + jsstring option" where
  "stringArg (JStr s) = Inr (Some s)"
| "stringArg v = (if jtruthy v then Inl TypeError else Inr None)"

section \<open>Formatting a price\<close>

text \<open>
  \<^verbatim>\<open>n.toLocaleString('en-IN')\<close> for the result of \<^verbatim>\<open>Math.round\<close>: the decimal
  digits in the Indian grouping (the last three digits, then groups of two).
\<close>

function digitsRev :: "nat \<Rightarrow> jsstring" where
  \<comment> \<open>the decimal digits of \<open>n\<close>, the last digit first\<close>
  "digitsRev n = of_nat (48 + n mod 10) # (if n < 10 then [] else digitsRev (n div 10))"
  by pat_completeness auto
termination
  by (relation "measure id") auto

declare digitsRev.simps [simp del]

fun groupTwo :: "jsstring \<Rightarrow> jsstring" where
  \<comment> \<open>on the reversed digits: a comma after every two digits that more digits follow\<close>
  "groupTwo (a # b # c # cs) = a # b # 0x2C # groupTwo (c # cs)"
| "groupTwo cs = cs"

definition formatIndian :: "int \<Rightarrow> jsstring" where
  "formatIndian n =
     (let ds = digitsRev (nat \<bar>n\<bar>);
          grouped = (case ds of a # b # c # d # rest \<Rightarrow> a # b # c # 0x2C # groupTwo (d # rest) | _ \<Rightarrow> ds)
      in (if n < 0 then js ''-'' else []) @ rev grouped)"

fun toLocaleStringIN :: "jsnum \<Rightarrow> jsstring" where
  "toLocaleStringIN (Fin a) = formatIndian \<lfloor>a\<rfloor>"
| "toLocaleStringIN PosInf = [0x221E]"
| "toLocaleStringIN NegInf = [0x2D, 0x221E]"
| "toLocaleStringIN NaN = js ''NaN''"

section \<open>POST /scrape\<close>

record listing =
  name :: json
  price :: "jsnum option"
  priceText :: json
  description :: json
  image :: json
  url :: jsstring
  websiteName :: json

record product = listing +
  blocked :: bool
  searchQuery :: json
  originalPrice :: json
  currency :: json
  blockerMessage :: "jsstring option"

datatype response =
    BadRequest
  | Json product
  | ServerError

text \<open>
  What a request meets outside the script: the body's \<^verbatim>\<open>url\<close> (\<open>None\<close> when
  the body has none), the environment flag \<^verbatim>\<open>IS_CLOUD\<close>, and the outcomes of
  the calls that leave the process, each \<open>None\<close> when the call throws. The
  rendered page is a string. The body that the HTTP client returns is a string, a
  falsy value, or, when the client parsed it as JSON, a truthy value that is not a
  string, with its \<^verbatim>\<open>length\<close> when it is an array. The URL of the body is a
  string. The handler reads and writes the cache of rates through its one call of
  \<^verbatim>\<open>toINR\<close>; the model of the handler takes the cache and gives the response.
\<close>

datatype payload = Missing | Text jsstring | Parsed "nat option"

record scrape_env =
  body_url :: "jsstring option"
  isCloud :: bool
  rendered :: "jsstring option"
  fetched :: "payload option"
  extraction :: "json option"
  clock :: int
  ratesReply :: "rates option"

fun falsy :: "payload \<Rightarrow> bool" where
  "falsy Missing = True"
| "falsy (Text h) = (h = [])"
| "falsy (Parsed n) = False"

fun shorterThan :: "payload \<Rightarrow> nat \<Rightarrow> bool" where
  \<comment> \<open>\<^verbatim>\<open>html.length < n\<close>; \<^verbatim>\<open>undefined < n\<close> is false\<close>
  "shorterThan (Text h) n = (length h < n)"
| "shorterThan (Parsed (Some k)) n = (k < n)"
| "shorterThan (Parsed None) n = False"
| "shorterThan Missing n = False"

definition fetchHTML :: "scrape_env \<Rightarrow> payload \<times> bool" where
  \<comment> \<open>step 1: the variables \<^verbatim>\<open>html\<close> and \<^verbatim>\<open>fetchFailed\<close> after both attempts\<close>
  "fetchHTML env =
     (let html = (if isCloud env then Missing
                  else (case rendered env of Some h \<Rightarrow> Text h | None \<Rightarrow> Missing))
      in if falsy html
         then (case fetched env of Some p \<Rightarrow> (p, False) | None \<Rightarrow> (html, True))
         else (html, False))"

definition blockerText :: "jsstring \<Rightarrow> jsstring \<Rightarrow> jsstring" where
  "blockerText site tail = [0x26D4] @ js '' '' @ site @ js '' has blocked access to this page. '' @ tail"

definition blockedResponse :: "jsstring \<Rightarrow> product" where
  \<comment> \<open>the helper of the handler; its argument \<^verbatim>\<open>reason\<close> is only logged\<close>
  "blockedResponse u =
     (let slugName = extractProductNameFromUrl u
      in \<lparr>name = (case slugName of Some n \<Rightarrow> JStr n | None \<Rightarrow> JStr (js ''Product'')),
          price = None,
          priceText = JNull,
          description = JArr [],
          image = JStr [],
          url = u,
          websiteName = JStr (getWebsiteName u),
          blocked = True,
          searchQuery = (case slugName of Some n \<Rightarrow> JStr n | None \<Rightarrow> JNull),
          originalPrice = JUndefined,
          currency = JUndefined,
          blockerMessage = Some (blockerText (getWebsiteName u)
            (js ''We'' @ [0x27] @ js ''ve extracted the product name from the URL and will search for similar products.''))\<rparr>)"

definition isUnknown :: "json \<Rightarrow> exn + bool" where
  "isUnknown n =
     (case stringArg n of
        Inl e \<Rightarrow> Inl e
      | Inr None \<Rightarrow> Inr True
      | Inr (Some s) \<Rightarrow>
          Inr (s = [] \<or> includesStr (toLowerCase s) (js ''unknown'') \<or> length (trim s) < 3))"

definition convert :: "rate_cache \<Rightarrow> int \<Rightarrow> rates option \<Rightarrow> jsnum option \<Rightarrow> json \<Rightarrow> exn + jsnum option" where
  \<comment> \<open>\<^verbatim>\<open>await toINR(numericPrice, currency)\<close> for a currency that is any truthy
      value: \<^verbatim>\<open>fromCurrency.toUpperCase()\<close> is reached when the amount passes the
      guard, and only a string has the method\<close>
  "convert st now reply amount cur =
     (case amount of
        None \<Rightarrow> Inr None
      | Some a \<Rightarrow>
          if \<not> truthy a \<or> isNaN a then Inr None
          else (case cur of
                  JStr c \<Rightarrow> Inr (fst (toINR st now reply amount c))
                | _ \<Rightarrow> Inl TypeError))"

fun sliceDescription :: "json \<Rightarrow> exn + json" where
  \<comment> \<open>\<^verbatim>\<open>(extracted.description || []).slice(0, 3)\<close>\<close>
  "sliceDescription (JArr xs) = Inr (JArr (take 3 xs))"
| "sliceDescription (JStr s) = Inr (if s = [] then JArr [] else JStr (take 3 s))"
| "sliceDescription v = (if jtruthy v then Inl TypeError else Inr (JArr []))"

definition formatINR :: "jsnum option \<Rightarrow> json \<Rightarrow> json" where
  \<comment> \<open>the field \<^verbatim>\<open>priceText\<close> of the response: the rupee sign U+20B9 and
      \<^verbatim>\<open>priceINR.toLocaleString('en-IN')\<close> when \<^verbatim>\<open>priceINR\<close> is truthy,
      \<^verbatim>\<open>extracted.priceText\<close> otherwise\<close>
  "formatINR priceINR original =
     (case priceINR of
        None \<Rightarrow> original
      | Some p \<Rightarrow> if truthy p then JStr (0x20B9 # toLocaleStringIN p) else original)"

definition found :: "scrape_env \<Rightarrow> jsstring \<Rightarrow> rate_cache \<Rightarrow> json \<Rightarrow> exn + product" where
  \<comment> \<open>from the test of the name to the response of step 4\<close>
  "found env u st extracted =
     (case isUnknown (getProp extracted (js ''name'')) of
        Inl e \<Rightarrow> Inl e
      | Inr True \<Rightarrow> Inr (blockedResponse u)
      | Inr False \<Rightarrow>
          (case stringArg (getProp extracted (js ''priceText'')) of
             Inl e \<Rightarrow> Inl e
           | Inr text \<Rightarrow>
               (let numericPrice = parseNumericPrice text;
                    cur = (if jtruthy (getProp extracted (js ''currency''))
                           then getProp extracted (js ''currency'')
                           else JStr (detectCurrency text))
                in case convert st (clock env) (ratesReply env) numericPrice cur of
                     Inl e \<Rightarrow> Inl e
                   | Inr priceINR \<Rightarrow>
                       (case sliceDescription (getProp extracted (js ''description'')) of
                          Inl e \<Rightarrow> Inl e
                        | Inr d \<Rightarrow>
                            Inr \<lparr>name = getProp extracted (js ''name''),
                                 price = priceINR,
                                 priceText = formatINR priceINR (getProp extracted (js ''priceText'')),
                                 description = d,
                                 image = (if jtruthy (getProp extracted (js ''image''))
                                          then getProp extracted (js ''image'') else JStr []),
                                 url = u,
                                 websiteName = JStr (getWebsiteName u),
                                 blocked = False,
                                 searchQuery = getProp extracted (js ''name''),
                                 originalPrice = getProp extracted (js ''priceText''),
                                 currency = cur,
                                 blockerMessage = None\<rparr>))))"

definition attempt :: "scrape_env \<Rightarrow> jsstring \<Rightarrow> rate_cache \<Rightarrow> exn + product" where
  \<comment> \<open>the \<^verbatim>\<open>try\<close> block: \<open>Inl\<close> is an exception that reaches the outer
      \<^verbatim>\<open>catch\<close>\<close>
  "attempt env u st =
     (let (html, fetchFailed) = fetchHTML env
      in if fetchFailed \<or> falsy html \<or> shorterThan html 500 then Inr (blockedResponse u)
         else
           (case html of
              Text h \<Rightarrow>
                (let cleanedText = cleanHTML h
                 in if length cleanedText < 200 then Inr (blockedResponse u)
                    else
                      (case extraction env of
                         None \<Rightarrow> Inr (blockedResponse u)
                       | Some JNull \<Rightarrow> Inr (blockedResponse u)
                       | Some extracted \<Rightarrow> found env u st extracted))
            | _ \<Rightarrow> Inl TypeError))"

definition rescue :: "jsstring \<Rightarrow> response" where
  \<comment> \<open>the outer \<^verbatim>\<open>catch\<close>\<close>
  "rescue u =
     (case extractProductNameFromUrl u of
        Some slugName \<Rightarrow>
          Json \<lparr>name = JStr slugName,
                price = None,
                priceText = JNull,
                description = JArr [],
                image = JStr [],
                url = u,
                websiteName = JStr (getWebsiteName u),
                blocked = True,
                searchQuery = JStr slugName,
                originalPrice = JUndefined,
                currency = JUndefined,
                blockerMessage = Some (blockerText (getWebsiteName u)
                  (js ''Showing similar products based on the URL.''))\<rparr>
      | None \<Rightarrow> ServerError)"

definition scrape :: "scrape_env \<Rightarrow> rate_cache \<Rightarrow> response" where
  \<comment> \<open>the response of \<^verbatim>\<open>app.post('/scrape', ...)\<close>\<close>
  "scrape env st =
     (case body_url env of
        None \<Rightarrow> BadRequest
      | Some u \<Rightarrow>
          if u = [] then BadRequest
          else (case attempt env u st of
                  Inr p \<Rightarrow> Json p
                | Inl e \<Rightarrow> rescue u))"

section \<open>POST /search\<close>

text \<open>
  \<^verbatim>\<open>encodeURIComponent\<close>: the string is read as code points (a surrogate
  without its partner is a \<^verbatim>\<open>URIError\<close>), and every code point other than
  \<^verbatim>\<open>A-Z a-z 0-9 - _ . ! ~ * ' ( )\<close> becomes the bytes of its UTF-8 encoding,
  each as \<^verbatim>\<open>%XX\<close>.
\<close>

definition isHighSurrogate :: "jschar \<Rightarrow> bool" where
  "isHighSurrogate c = (0xD800 \<le> c \<and> c \<le> 0xDBFF)"

definition isLowSurrogate :: "jschar \<Rightarrow> bool" where
  "isLowSurrogate c = (0xDC00 \<le> c \<and> c \<le> 0xDFFF)"

fun codePoints :: "jsstring \<Rightarrow> nat list option" where
  "codePoints [] = Some []"
| "codePoints [c] = (if isHighSurrogate c \<or> isLowSurrogate c then None else Some [unat c])"
| "codePoints (c # d # cs) =
     (if isHighSurrogate c then
        (if isLowSurrogate d
         then map_option (Cons (0x10000 + (unat c - 0xD800) * 0x400 + (unat d - 0xDC00))) (codePoints cs)
         else None)
      else if isLowSurrogate c then None
      else map_option (Cons (unat c)) (codePoints (d # cs)))"

definition utf8 :: "nat \<Rightarrow> nat list" where
  "utf8 cp =
     (if cp < 0x80 then [cp]
      else if cp < 0x800 then [0xC0 + cp div 64, 0x80 + cp mod 64]
      else if cp < 0x10000 then [0xE0 + cp div 4096, 0x80 + (cp div 64) mod 64, 0x80 + cp mod 64]
      else [0xF0 + cp div 262144, 0x80 + (cp div 4096) mod 64, 0x80 + (cp div 64) mod 64,
            0x80 + cp mod 64])"

definition hexDigit :: "nat \<Rightarrow> jschar" where
  "hexDigit n = (if n < 10 then of_nat (48 + n) else of_nat (55 + n))"

definition percent :: "nat \<Rightarrow> jsstring" where
  "percent b = [0x25, hexDigit (b div 16), hexDigit (b mod 16)]"

definition isUnreserved :: "nat \<Rightarrow> bool" where
  "isUnreserved cp =
     ((0x41 \<le> cp \<and> cp \<le> 0x5A) \<or> (0x61 \<le> cp \<and> cp \<le> 0x7A) \<or> (0x30 \<le> cp \<and> cp \<le> 0x39)
      \<or> cp \<in> set [0x2D, 0x5F, 0x2E, 0x21, 0x7E, 0x2A, 0x27, 0x28, 0x29])"

definition encodeURIComponent :: "jsstring \<Rightarrow> exn + jsstring" where
  "encodeURIComponent s =
     (case codePoints s of
        None \<Rightarrow> Inl URIError
      | Some cps \<Rightarrow>
          Inr (concat (map (\<lambda>cp. if isUnreserved cp then [of_nat cp]
                                  else concat (map percent (utf8 cp))) cps)))"

text \<open>
  The request and its surroundings: the body's \<^verbatim>\<open>productName\<close>, the environment
  variable \<^verbatim>\<open>SERPAPI_KEY\<close> (\<open>None\<close> when unset), and the outcome of the
  branch that asks the search service, which is not modelled further: \<open>Some\<close> of
  the entries it sends, or \<open>None\<close> when it throws and the handler falls through.
\<close>

record search_env =
  productName :: "jsstring option"
  SERPAPI_KEY :: "jsstring option"
  shopping :: "listing list option"

record search_body =
  products :: "listing list"
  fallback :: bool

datatype search_response =
    NameRequired
  | Reply search_body
  | Rejected exn

definition keyConfigured :: "jsstring option \<Rightarrow> bool" where
  \<comment> \<open>\<^verbatim>\<open>serpApiKey && serpApiKey !== 'your_serpapi_key_here'\<close>\<close>
  "keyConfigured k =
     (case k of None \<Rightarrow> False | Some s \<Rightarrow> s \<noteq> [] \<and> s \<noteq> js ''your_serpapi_key_here'')"

definition retailers :: "(jsstring \<times> jsstring \<times> jsstring) list" where
  \<comment> \<open>\<^verbatim>\<open>name\<close>, \<^verbatim>\<open>domain\<close> and \<^verbatim>\<open>searchPath\<close> of each retailer\<close>
  "retailers =
     [(js ''Amazon India'', js ''amazon.in'', js ''s?k=''),
      (js ''Flipkart'', js ''flipkart.com'', js ''search?q=''),
      (js ''Myntra'', js ''myntra.com'', js ''search?rawQuery='')]"

definition retailerEntry :: "jsstring \<Rightarrow> jsstring \<Rightarrow> jsstring \<times> jsstring \<times> jsstring \<Rightarrow> listing" where
  \<comment> \<open>the entry of one retailer, for the product name and its encoding\<close>
  "retailerEntry q encoded retailer =
     (case retailer of (label, domain, searchPath) \<Rightarrow>
        \<lparr>name = JStr q,
         price = None,
         priceText = JStr (js ''Check website''),
         description = JArr [JStr (js ''Search results from '' @ label),
                             JStr (js ''Click the link to view current pricing in '' @ [0x20B9]),
                             JStr (js ''Prices may vary by seller'')],
         image = JStr [],
         url = js ''https://www.'' @ domain @ js ''/'' @ searchPath @ encoded,
         websiteName = JStr label\<rparr>)"

definition search :: "search_env \<Rightarrow> search_response" where
  \<comment> \<open>the response of \<^verbatim>\<open>app.post('/search', ...)\<close>; \<open>Rejected\<close> is an exception
      that leaves the handler: the handler sends no response\<close>
  "search env =
     (case productName env of
        None \<Rightarrow> NameRequired
      | Some q \<Rightarrow>
          if q = [] then NameRequired
          else
            (case (if keyConfigured (SERPAPI_KEY env) then shopping env else None) of
               Some entries \<Rightarrow> Reply \<lparr>products = entries, fallback = False\<rparr>
             | None \<Rightarrow>
                 (case encodeURIComponent q of
                    Inl e \<Rightarrow> Rejected e
                  | Inr encoded \<Rightarrow>
                      Reply \<lparr>products = map (retailerEntry q encoded) retailers, fallback = True\<rparr>)))"

section \<open>Example requests\<close>

definition product_page :: scrape_env where
  \<comment> \<open>a page of 600 code units, and an extraction with a price of 0.004 USD\<close>
  "product_page =
     \<lparr>body_url = Some (js ''https://www.shop.com/p/blue-widget-12345''),
      isCloud = True,
      rendered = None,
      fetched = Some (Text (replicate 600 0x61)),
      extraction = Some (JObj [(js ''name'', JStr (js ''Widget'')),
                               (js ''priceText'', JStr (js ''$0.004'')),
                               (js ''currency'', JStr (js ''USD''))]),
      clock = 1700000000000,
      ratesReply = None\<rparr>"

definition short_page :: scrape_env where
  \<comment> \<open>the same request, answered with five code units\<close>
  "short_page = product_page\<lparr>fetched := Some (Text (js ''short''))\<rparr>"

definition parsed_page :: scrape_env where
  \<comment> \<open>the same request, answered with a body that the client parsed as an object\<close>
  "parsed_page = product_page\<lparr>fetched := Some (Parsed None)\<rparr>"


chapter \<open>Properties\<close>

section \<open>Slug names\<close>

subsection \<open>The slug of the example URL\<close>

text \<open>
  C3 (as stated, refuted): for the URL
  \<^verbatim>\<open>https://example.com/dp/amazing-wireless-headphones-B08XYZ123/\<close> the claim
  gives the slug name \<^verbatim>\<open>Amazing Wireless Headphones\<close>. The function does not
  return that string.
\<close>

theorem C3_slug_name_counterexample:
  "extractProductNameFromUrl (js ''https://example.com/dp/amazing-wireless-headphones-B08XYZ123/'')
     \<noteq> Some (js ''Amazing Wireless Headphones'')"
  by code_simp

text \<open>
  C3 (amended): for that URL the function returns
  \<^verbatim>\<open>Amazing Wireless Headphones B08XYZ123\<close>. The segment \<^verbatim>\<open>dp\<close> has no run
  of three letters, the other segment is the slug, and its last word
  \<^verbatim>\<open>B08XYZ123\<close> is neither eight or more hexadecimal digits (it has
  \<^verbatim>\<open>X\<close>, \<^verbatim>\<open>Y\<close>, \<^verbatim>\<open>Z\<close>) nor four or more decimal digits, so neither
  replacement removes it.
\<close>

theorem C3_slug_name_keeps_item_id:
  "extractProductNameFromUrl (js ''https://example.com/dp/amazing-wireless-headphones-B08XYZ123/'')
     = Some (js ''Amazing Wireless Headphones B08XYZ123'')"
  by code_simp

section \<open>Currency\<close>

subsection \<open>Rates are finite\<close>







subsection \<open>The result of the conversion\<close>




subsection \<open>A refresh that fails\<close>

text \<open>
  C6 (as stated, refuted): the claim has the call after a failed refresh retry the
  request. Here the cache is one minute old and has no rate for \<^verbatim>\<open>XYZ\<close>; the
  call for \<^verbatim>\<open>XYZ\<close> tries to refresh, the request fails, the fallback table is
  stored under the old time stamp; the call for \<^verbatim>\<open>USD\<close> one minute later finds
  a fresh time stamp and a rate for \<^verbatim>\<open>USD\<close> in the fallback table and does not
  refresh.
\<close>

theorem C6_no_retry_counterexample:
  "needsRefresh \<lparr>exchangeRates = map_of [(js ''USD'', Fin 0.012)], ratesFetchedAt = 1000000\<rparr> 1060000 (js ''XYZ'')
   \<and> snd (getINRRate \<lparr>exchangeRates = map_of [(js ''USD'', Fin 0.012)], ratesFetchedAt = 1000000\<rparr> 1060000
            None (js ''XYZ''))
       = \<lparr>exchangeRates = fallbackRates, ratesFetchedAt = 1000000\<rparr>
   \<and> \<not> needsRefresh
         (snd (getINRRate \<lparr>exchangeRates = map_of [(js ''USD'', Fin 0.012)], ratesFetchedAt = 1000000\<rparr> 1060000
                 None (js ''XYZ'')))
         1120000 (js ''USD'')"
  by (simp add: getINRRate_def needsRefresh_def refresh_def hasRate_def fallbackRates_def truthy_def
      objectPrototypeKeys_def js_def Let_def split: option.splits)

text \<open>
  C6 (amended): when \<^verbatim>\<open>getINRRate\<close> tries to refresh and the request fails, the
  whole table of rates becomes the fallback table (nothing of the old table is
  kept) and the time stamp stays as it was. A later call, at time \<open>now'\<close> for the
  code \<open>cur'\<close>, tries to refresh again exactly when \<open>now'\<close> is more than 30
  minutes after that time stamp or the fallback table has no rate for \<open>cur'\<close>; in
  particular every later call retries when the cache was already older than 30
  minutes at the failed attempt.
\<close>

theorem C6_failed_refresh:
  assumes "needsRefresh st now cur"
  shows "snd (getINRRate st now None cur) = st\<lparr>exchangeRates := fallbackRates\<rparr>
       \<and> exchangeRates (snd (getINRRate st now None cur)) = fallbackRates
       \<and> ratesFetchedAt (snd (getINRRate st now None cur)) = ratesFetchedAt st
       \<and> (\<forall>now' cur'. needsRefresh (snd (getINRRate st now None cur)) now' cur'
             = (now' - ratesFetchedAt st > 30 * 60 * 1000 \<or> \<not> hasRate fallbackRates cur'))
       \<and> (\<forall>now' cur'. now \<le> now' \<and> now - ratesFetchedAt st > 30 * 60 * 1000
             \<longrightarrow> needsRefresh (snd (getINRRate st now None cur)) now' cur')"
proof -
  have st': "snd (getINRRate st now None cur) = st\<lparr>exchangeRates := fallbackRates\<rparr>"
    using assms by (simp add: getINRRate_def refresh_def Let_def split: option.splits)
  show ?thesis
    unfolding st' by (auto simp: needsRefresh_def)
qed

text \<open>
  The first call of a process: the time stamp is 0, the request fails, and the
  next call retries.
\<close>

theorem C6_failed_refresh_witness:
  "needsRefresh initial_cache 1700000000000 (js ''USD'')
   \<and> snd (getINRRate initial_cache 1700000000000 None (js ''USD''))
       = \<lparr>exchangeRates = fallbackRates, ratesFetchedAt = 0\<rparr>
   \<and> needsRefresh (snd (getINRRate initial_cache 1700000000000 None (js ''USD''))) 1700000000001 (js ''USD'')"
proof -
  have h: "needsRefresh initial_cache 1700000000000 (js ''USD'')"
    by (simp add: needsRefresh_def initial_cache_def)
  note t = C6_failed_refresh [OF h]
  have e: "snd (getINRRate initial_cache 1700000000000 None (js ''USD''))
             = \<lparr>exchangeRates = fallbackRates, ratesFetchedAt = 0\<rparr>"
    using t by (simp add: initial_cache_def)
  have r: "needsRefresh (snd (getINRRate initial_cache 1700000000000 None (js ''USD'')))
             1700000000001 (js ''USD'')"
  proof -
    have "(1700000000000::int) \<le> 1700000000001
          \<and> 1700000000000 - ratesFetchedAt initial_cache > 30 * 60 * 1000"
      by (simp add: initial_cache_def)
    with t show ?thesis by blast
  qed
  from h e r show ?thesis by blast
qed

subsection \<open>The default currency\<close>

lemma includesStr_single: "includesStr s [c] = (c \<in> set s)"
  by (induction s) (auto simp: startsWith_def)

text \<open>
  C9: for every price string in which the rupee sign (U+20B9), the letters
  \<^verbatim>\<open>inr\<close> in any case, the euro sign (U+20AC), the pound sign (U+00A3) and the
  yen sign (U+00A5) do not occur, and for a missing or empty price string,
  \<^verbatim>\<open>detectCurrency\<close> returns \<^verbatim>\<open>USD\<close> and not \<^verbatim>\<open>INR\<close>; a conversion with the
  detected currency is the conversion at the USD rate.
\<close>

theorem C9_detectCurrency_default_USD:
  assumes "0x20B9 \<notin> set s" and "\<not> includesStr (toLowerCase s) (js ''inr'')"
    and "0x20AC \<notin> set s" and "0xA3 \<notin> set s" and "0xA5 \<notin> set s"
  shows "detectCurrency (Some s) = js ''USD''
       \<and> detectCurrency (Some s) \<noteq> js ''INR''
       \<and> detectCurrency None = js ''USD''
       \<and> detectCurrency (Some []) = js ''USD''
       \<and> toINR st now reply amount (detectCurrency (Some s)) = toINR st now reply amount (js ''USD'')"
proof -
  have usd: "detectCurrency (Some s) = js ''USD''"
    using assms by (simp add: detectCurrency_def includesStr_single)
  have "js ''USD'' \<noteq> js ''INR''"
    by (simp add: js_def)
  with usd show ?thesis
    by (simp add: detectCurrency_def)
qed

theorem C9_detectCurrency_witness:
  "0x20B9 \<notin> set (js ''$25.50'') \<and> \<not> includesStr (toLowerCase (js ''$25.50'')) (js ''inr'')
   \<and> 0x20AC \<notin> set (js ''$25.50'') \<and> 0xA3 \<notin> set (js ''$25.50'') \<and> 0xA5 \<notin> set (js ''$25.50'')
   \<and> detectCurrency (Some (js ''$25.50'')) = js ''USD''
   \<and> fst (toINR \<lparr>exchangeRates = fallbackRates, ratesFetchedAt = 0\<rparr> 1000 None
            (parseNumericPrice (Some (js ''$25.50''))) (detectCurrency (Some (js ''$25.50''))))
       = Some (Fin 2125)"
proof -
  have h1: "0x20B9 \<notin> set (js ''$25.50'')" by code_simp
  have h2: "\<not> includesStr (toLowerCase (js ''$25.50'')) (js ''inr'')" by code_simp
  have h3: "0x20AC \<notin> set (js ''$25.50'')" by code_simp
  have h4: "0xA3 \<notin> set (js ''$25.50'')" by code_simp
  have h5: "0xA5 \<notin> set (js ''$25.50'')" by code_simp
  have v: "fst (toINR \<lparr>exchangeRates = fallbackRates, ratesFetchedAt = 0\<rparr> 1000 None
            (parseNumericPrice (Some (js ''$25.50''))) (js ''USD'')) = Some (Fin 2125)"
    by code_simp
  from C9_detectCurrency_default_USD [OF h1 h2 h3 h4 h5,
      of "\<lparr>exchangeRates = fallbackRates, ratesFetchedAt = 0\<rparr>" 1000 None "parseNumericPrice (Some (js ''$25.50''))"]
  show ?thesis using h1 h2 h3 h4 h5 v by simp
qed

section \<open>The text reducer\<close>

subsection \<open>Text without markup\<close>











subsection \<open>White space\<close>


















subsection \<open>A second pass\<close>




subsection \<open>Well-formed markup\<close>
























subsection \<open>The length and the angle brackets of the output\<close>




section \<open>The response of POST /scrape\<close>

subsection \<open>The paths of the handler\<close>

lemma blockedResponse_fields:
  "blocked (blockedResponse u) \<and> price (blockedResponse u) = None
   \<and> description (blockedResponse u) = JArr []"
  by (simp add: blockedResponse_def Let_def)

lemma found_blocked_or_priced:
  assumes "found env u st extracted = Inr p"
  shows "p = blockedResponse u
       \<or> (\<not> blocked p
          \<and> originalPrice p = getProp extracted (js ''priceText'')
          \<and> priceText p = formatINR (price p) (getProp extracted (js ''priceText'')))"
  using assms unfolding found_def Let_def
  by (auto split: sum.splits bool.splits if_splits)

lemma attempt_blocked_or_priced:
  assumes "attempt env u st = Inr p"
  shows "p = blockedResponse u
       \<or> (\<exists>extracted. extraction env = Some extracted \<and> \<not> blocked p
          \<and> originalPrice p = getProp extracted (js ''priceText'')
          \<and> priceText p = formatINR (price p) (getProp extracted (js ''priceText'')))"
proof -
  obtain html fetchFailed where f: "fetchHTML env = (html, fetchFailed)"
    by (cases "fetchHTML env")
  show ?thesis
  proof (cases "fetchFailed \<or> falsy html \<or> shorterThan html 500")
    case True
    with assms f show ?thesis by (simp add: attempt_def)
  next
    case False
    with assms f obtain h where h: "html = Text h"
      by (cases html) (auto simp: attempt_def)
    show ?thesis
    proof (cases "length (cleanHTML h) < 200")
      case True
      with assms f h False show ?thesis by (simp add: attempt_def)
    next
      case long: False
      show ?thesis
      proof (cases "extraction env")
        case None
        with assms f h False long show ?thesis by (simp add: attempt_def)
      next
        case (Some extracted)
        show ?thesis
        proof (cases "extracted = JNull")
          case True
          with assms f h False long Some show ?thesis by (simp add: attempt_def)
        next
          case notnull: False
          with assms f h False long Some have "found env u st extracted = Inr p"
            by (cases extracted) (simp_all add: attempt_def)
          from found_blocked_or_priced [OF this] Some show ?thesis by blast
        qed
      qed
    qed
  qed
qed

lemma rescue_fields:
  assumes "rescue u = Json p"
  shows "blocked p \<and> price p = None \<and> description p = JArr []"
  using assms by (auto simp: rescue_def split: option.splits)

lemma scrape_Json_cases:
  assumes "scrape env st = Json r"
  shows "\<exists>u. body_url env = Some u \<and> u \<noteq> [] \<and> (attempt env u st = Inr r \<or> rescue u = Json r)"
  using assms by (auto simp: scrape_def split: option.splits if_splits sum.splits)

subsection \<open>Blocked responses\<close>

text \<open>
  C2: every response of \<^verbatim>\<open>POST /scrape\<close> with \<^verbatim>\<open>blocked: true\<close> has the price
  \<^verbatim>\<open>null\<close> and the empty array as its description. Such a response is either
  what \<^verbatim>\<open>blockedResponse\<close> builds (after a failed fetch, a short page, a short
  reduced text, a failed extraction or an unusable name) or what the outer
  \<^verbatim>\<open>catch\<close> builds; the response of a found product has \<^verbatim>\<open>blocked: false\<close>.
\<close>

theorem C2_blocked_has_no_price:
  assumes "scrape env st = Json r" and "blocked r"
  shows "price r = None \<and> description r = JArr []"
proof -
  from scrape_Json_cases [OF assms(1)] obtain u
    where "attempt env u st = Inr r \<or> rescue u = Json r" by blast
  then show ?thesis
  proof
    assume "attempt env u st = Inr r"
    from attempt_blocked_or_priced [OF this] assms(2) have "r = blockedResponse u" by blast
    then show ?thesis by (simp add: blockedResponse_fields)
  next
    assume "rescue u = Json r"
    then show ?thesis using rescue_fields by blast
  qed
qed

text \<open>
  A response of the outer \<^verbatim>\<open>catch\<close>: the body is not a string, so
  \<^verbatim>\<open>cleanHTML\<close> throws.
\<close>

theorem C2_blocked_witness:
  "\<exists>r. scrape parsed_page initial_cache = Json r \<and> blocked r \<and> price r = None
        \<and> description r = JArr []"
proof -
  have "case scrape parsed_page initial_cache of Json r \<Rightarrow> blocked r | _ \<Rightarrow> False"
    by code_simp
  then obtain r where r: "scrape parsed_page initial_cache = Json r" "blocked r"
    by (cases "scrape parsed_page initial_cache") auto
  from C2_blocked_has_no_price [OF r] r show ?thesis by blast
qed

text \<open>
  C7: when both fetches have failed, or the page is missing or empty, or it is
  shorter than 500 code units, the response of \<^verbatim>\<open>POST /scrape\<close> (for a request
  with a URL) is the one \<^verbatim>\<open>blockedResponse\<close> builds, with \<^verbatim>\<open>blocked: true\<close> and
  the price \<^verbatim>\<open>null\<close>.
\<close>

theorem C7_short_html_is_blocked:
  assumes "body_url env = Some u" and "u \<noteq> []"
    and "snd (fetchHTML env) \<or> falsy (fst (fetchHTML env)) \<or> shorterThan (fst (fetchHTML env)) 500"
  shows "scrape env st = Json (blockedResponse u)
       \<and> blocked (blockedResponse u) \<and> price (blockedResponse u) = None"
proof -
  have "attempt env u st = Inr (blockedResponse u)"
    using assms(3) by (cases "fetchHTML env") (auto simp: attempt_def)
  with assms(1,2) show ?thesis
    by (simp add: scrape_def blockedResponse_fields)
qed

theorem C7_short_html_witness:
  "body_url short_page = Some (js ''https://www.shop.com/p/blue-widget-12345'')
   \<and> js ''https://www.shop.com/p/blue-widget-12345'' \<noteq> []
   \<and> shorterThan (fst (fetchHTML short_page)) 500
   \<and> scrape short_page initial_cache = Json (blockedResponse (js ''https://www.shop.com/p/blue-widget-12345''))
   \<and> blocked (blockedResponse (js ''https://www.shop.com/p/blue-widget-12345''))
   \<and> price (blockedResponse (js ''https://www.shop.com/p/blue-widget-12345'')) = None"
proof -
  have h1: "body_url short_page = Some (js ''https://www.shop.com/p/blue-widget-12345'')"
    by (simp add: short_page_def product_page_def)
  have h2: "js ''https://www.shop.com/p/blue-widget-12345'' \<noteq> []"
    by (simp add: js_def)
  have h3: "shorterThan (fst (fetchHTML short_page)) 500"
    by code_simp
  from h3 have h3': "snd (fetchHTML short_page) \<or> falsy (fst (fetchHTML short_page))
      \<or> shorterThan (fst (fetchHTML short_page)) 500" by blast
  from C7_short_html_is_blocked [OF h1 h2 h3', of initial_cache] h1 h2 h3 show ?thesis by blast
qed

subsection \<open>The Indian grouping\<close>

lemma digitsRev_small: "n < 10 \<Longrightarrow> digitsRev n = [of_nat (48 + n)]"
  by (subst digitsRev.simps) simp

lemma digitsRev_large: "\<not> n < 10 \<Longrightarrow> digitsRev n = of_nat (48 + n mod 10) # digitsRev (n div 10)"
  by (subst digitsRev.simps) simp

lemma formatIndian_examples:
  "formatIndian 0 = js ''0''" "formatIndian 999 = js ''999''" "formatIndian 2125 = js ''2,125''"
  "formatIndian 1234567 = js ''12,34,567''" "formatIndian (- 1234) = js ''-1,234''"
  by (simp_all add: formatIndian_def digitsRev_small digitsRev_large js_def)

lemma formatINR_example: "formatINR (Some (Fin 1999)) JNull = JStr (0x20B9 # js ''1,999'')"
  by (simp add: formatINR_def truthy_def formatIndian_def digitsRev_small digitsRev_large js_def)

subsection \<open>The price text of a found product\<close>



section \<open>The response of POST /search\<close>








end
